theory Spec2Isabelle
  imports Complex_Main
begin

section \<open>Numeric vectors\<close>

text \<open>
  The node works on Eigen fixed-size vectors of doubles. A double is modelled as a
  real number; rounding is outside the model. \<open>Vector4d\<close> holds a quaternion in the
  order (x, y, z, w) in which \<open>poseCallback\<close> builds it.
\<close>

type_synonym Vector2d = "real \<times> real"
type_synonym Vector3d = "real \<times> real \<times> real"
type_synonym Vector4d = "real \<times> real \<times> real \<times> real"

fun scale3 :: "real \<Rightarrow> Vector3d \<Rightarrow> Vector3d" where
  "scale3 a (x, y, z) = (a * x, a * y, a * z)"

fun add3 :: "Vector3d \<Rightarrow> Vector3d \<Rightarrow> Vector3d" where
  "add3 (x, y, z) (x', y', z') = (x + x', y + y', z + z')"

fun sub3 :: "Vector3d \<Rightarrow> Vector3d \<Rightarrow> Vector3d" where
  "sub3 (x, y, z) (x', y', z') = (x - x', y - y', z - z')"

fun norm3 :: "Vector3d \<Rightarrow> real" where
  "norm3 (x, y, z) = sqrt (x * x + y * y + z * z)"

fun scale4 :: "real \<Rightarrow> Vector4d \<Rightarrow> Vector4d" where
  "scale4 a (x, y, z, w) = (a * x, a * y, a * z, a * w)"

fun add4 :: "Vector4d \<Rightarrow> Vector4d \<Rightarrow> Vector4d" where
  "add4 (x, y, z, w) (x', y', z', w') = (x + x', y + y', z + z', w + w')"

fun sub4 :: "Vector4d \<Rightarrow> Vector4d \<Rightarrow> Vector4d" where
  "sub4 (x, y, z, w) (x', y', z', w') = (x - x', y - y', z - z', w - w')"

fun norm4 :: "Vector4d \<Rightarrow> real" where
  "norm4 (x, y, z, w) = sqrt (x * x + y * y + z * z + w * w)"

section \<open>Grid maps and messages\<close>

text \<open>
  \<open>grid_map::GridMap\<close> and Eigen's dynamic matrices are types of libraries the node
  links against. Only what the node touches is kept: the frame id, the metric side
  lengths (\<open>getLength\<close>, metres), the size in cells (\<open>getSize\<close>), and the layers, an
  ordered list of names with one matrix per name.
\<close>

record Matrix =
  rows :: int
  cols :: int
  coeffs :: "real list"

definition MatrixXd_Zero :: "int \<Rightarrow> int \<Rightarrow> Matrix" where
  "MatrixXd_Zero r c = \<lparr>rows = r, cols = c, coeffs = replicate (nat (r * c)) 0\<rparr>"

text \<open>Conversion of a double to an Eigen index (a signed integer) drops the fraction.\<close>

definition to_Index :: "real \<Rightarrow> int" where
  "to_Index x = (if 0 \<le> x then \<lfloor>x\<rfloor> else \<lceil>x\<rceil>)"

record GridMap =
  frameId :: string
  timestamp :: nat
  gm_length :: Vector2d
  gm_size :: "int \<times> int"
  gm_position :: Vector2d
  gm_resolution :: real
  gm_layers :: "string list"
  gm_data :: "(string \<times> Matrix) list"

definition default_GridMap :: GridMap where
  "default_GridMap = \<lparr>frameId = [], timestamp = 0, gm_length = (0, 0), gm_size = (0, 0),
     gm_position = (0, 0), gm_resolution = 0, gm_layers = [], gm_data = []\<rparr>"

definition setFrameId :: "string \<Rightarrow> GridMap \<Rightarrow> GridMap" where
  "setFrameId f g = g\<lparr>frameId := f\<rparr>"

definition exists_layer :: "GridMap \<Rightarrow> string \<Rightarrow> bool" where
  "exists_layer g layer = (map_of (gm_data g) layer \<noteq> None)"

fun overwrite :: "string \<Rightarrow> Matrix \<Rightarrow> (string \<times> Matrix) list \<Rightarrow> (string \<times> Matrix) list" where
  "overwrite k v [] = []"
| "overwrite k v ((k', v') # kvs) =
     (if k = k' then (k', v) # kvs else (k', v') # overwrite k v kvs)"

text \<open>
  \<open>GridMap::add(layer, data)\<close>: an existing layer has its data replaced, a new one is
  appended to the layer list. The library does not resize \<open>data\<close> to the map's size.
\<close>

definition add :: "string \<Rightarrow> Matrix \<Rightarrow> GridMap \<Rightarrow> GridMap" where
  "add layer d g =
     (if exists_layer g layer then g\<lparr>gm_data := overwrite layer d (gm_data g)\<rparr>
      else g\<lparr>gm_layers := gm_layers g @ [layer], gm_data := gm_data g @ [(layer, d)]\<rparr>)"

text \<open>
  A grid-map message is represented by what \<open>GridMapRosConverter::toMessage\<close> was
  handed: the map, the layers to serialize, and the header stamp, which the converter
  takes from the map and the caller may overwrite.
\<close>

record GridMapMsg =
  msg_stamp :: nat
  msg_layers :: "string list"
  msg_map :: GridMap

definition toMessage :: "GridMap \<Rightarrow> string list \<Rightarrow> GridMapMsg" where
  "toMessage g ls = \<lparr>msg_stamp = timestamp g, msg_layers = ls, msg_map = g\<rparr>"

datatype payload =
    MapMessage GridMapMsg
  | PointCloudMessage GridMap string
  | EmptyMessage

datatype publisher = mapPub | recordablePub | pointPub | alivePub

section \<open>Inputs of the node\<close>

record PoseWithCovarianceStamped =
  pose_position :: Vector3d
  pose_orientation :: Vector4d

record PointCloud2 =
  frame_id :: string
  stamp :: nat
  points :: "Vector3d list"

record Affine3d =
  rotation :: "real list"
  translation :: Vector3d

record GetGridMapRequest =
  position_x :: real
  position_y :: real
  length_x :: real
  length_y :: real
  req_layers :: "string list"

record config =
  cfg_pointcloud_topics :: "string list option"
  cfg_pose_topic :: "string option"
  cfg_map_frame :: "string option"
  cfg_position_lowpass_alpha :: "real option"
  cfg_orientation_lowpass_alpha :: "real option"
  cfg_recordable_fps :: "real option"
  cfg_enable_pointcloud_publishing :: "bool option"

text \<open>\<open>nh.param(name, var, default)\<close>: the configured value, or the default.\<close>

definition param :: "'a option \<Rightarrow> 'a \<Rightarrow> 'a" where
  "param v d = (case v of Some x \<Rightarrow> x | None \<Rightarrow> d)"

section \<open>The environment: transform listener, map engine, grid-map library\<close>

text \<open>
  \<open>tf::TransformException\<close> is what \<open>lookupTransform\<close> throws when the wait timed
  out, a frame is missing or the stamp needs extrapolation; \<open>what\<close> is its message.
\<close>

datatype tf_cause = Timeout | MissingFrame | Extrapolation

datatype TransformException = TransformException tf_cause string

fun what :: "TransformException \<Rightarrow> string" where
  "what (TransformException c m) = m"

text \<open>
  The map engine (\<open>map_\<close>, a wrapper around an embedded interpreter) is opaque. Its
  state is the sequence of calls it has received; what \<open>get_grid_map\<close> writes into the
  map passed to it is a function of that sequence and of the map, supplied by the
  environment. The model follows the paths on which the calls into the engine and
  into the grid-map library return; only the transform lookup has a modelled failure,
  the one the node catches.
\<close>

datatype engine_call =
    Initialize
  | Input "Vector3d list" "real list" Vector3d real real
  | MoveTo Vector2d
  | GetGridMap
  | Clear

record env =
  lookupTransform :: "string \<Rightarrow> string \<Rightarrow> nat \<Rightarrow> TransformException + Affine3d"
  get_grid_map :: "engine_call list \<Rightarrow> GridMap \<Rightarrow> GridMap"
  GridMap_getSubmap :: "GridMap \<Rightarrow> Vector2d \<Rightarrow> Vector2d \<Rightarrow> GridMap \<times> bool"

section \<open>The node\<close>

text \<open>
  Events a callback produces, in program order. Accesses to the cached map \<open>gridMap_\<close>
  are named after the call that makes them; \<open>toMessage_local\<close> is the serialization of
  a local copy, which does not touch the cache.
\<close>

datatype cache_access =
    by_get_grid_map
  | by_toMessage
  | by_toPointCloud
  | by_getSubmap
  | by_exists

datatype event =
    Lock
  | Unlock
  | Access cache_access
  | toMessage_local
  | Publish publisher payload
  | ROS_ERROR string

record node =
  lowpassPosition :: Vector3d
  lowpassOrientation :: Vector4d
  positionError :: real
  orientationError :: real
  positionAlpha :: real
  orientationAlpha :: real
  enablePointCloudPublishing :: bool
  recordableFps :: real
  mapFrameId :: string
  gridMap :: GridMap
  engine :: "engine_call list"
  pointcloudSubs :: "string list"
  poseSub :: string
  recordableTimer :: "real option"

text \<open>
  The constructor: the member initializers, then the parameters read over them, the
  subscriptions, and the throttle timer, created only for a positive rate. The timer
  is kept as its period.
\<close>

definition constructor :: "config \<Rightarrow> node" where
  "constructor cfg =
     (let s0 = \<lparr>lowpassPosition = (0, 0, 0),
                lowpassOrientation = (0, 0, 0, 1),
                positionError = 0,
                orientationError = 0,
                positionAlpha = 0.1,
                orientationAlpha = 0.1,
                enablePointCloudPublishing = False,
                recordableFps = 0.0,
                mapFrameId = [],
                gridMap = default_GridMap,
                engine = [],
                pointcloudSubs = [],
                poseSub = [],
                recordableTimer = None\<rparr>;
          s1 = s0\<lparr>engine := engine s0 @ [Initialize]\<rparr>;
          pointcloud_topics = param (cfg_pointcloud_topics cfg) [''points''];
          pose_topic = param (cfg_pose_topic cfg) ''pose'';
          s2 = s1\<lparr>mapFrameId := param (cfg_map_frame cfg) ''map''\<rparr>;
          s3 = s2\<lparr>positionAlpha := param (cfg_position_lowpass_alpha cfg) 0.2\<rparr>;
          s4 = s3\<lparr>orientationAlpha := param (cfg_orientation_lowpass_alpha cfg) 0.2\<rparr>;
          s5 = s4\<lparr>recordableFps := param (cfg_recordable_fps cfg) 3.0\<rparr>;
          s6 = s5\<lparr>enablePointCloudPublishing :=
                    param (cfg_enable_pointcloud_publishing cfg) False\<rparr>;
          s7 = s6\<lparr>poseSub := pose_topic\<rparr>;
          s8 = s7\<lparr>pointcloudSubs := pointcloud_topics\<rparr>;
          s9 = s8\<lparr>gridMap := setFrameId (mapFrameId s8) (gridMap s8)\<rparr>
      in if recordableFps s9 > 0
         then (let duration = 1.0 / (recordableFps s9 + 0.00001)
               in s9\<lparr>recordableTimer := Some duration\<rparr>)
         else s9)"

definition publishAsPointCloud :: "node \<Rightarrow> event list" where
  "publishAsPointCloud s =
     [Access by_toPointCloud,
      Publish pointPub (PointCloudMessage (gridMap s) ''elevation'')]"

text \<open>
  \<open>now\<close> is the clock reading stamped on the outgoing map. The scoped lock is released
  by the explicit \<open>unlock()\<close>; nothing is left to release at the end of the function.
\<close>

definition pointcloudCallback ::
    "env \<Rightarrow> nat \<Rightarrow> PointCloud2 \<Rightarrow> node \<Rightarrow> node \<times> event list" where
  "pointcloudCallback ev now cloud s =
     (let sensorFrameId = frame_id cloud;
          timeStamp = stamp cloud
      in case lookupTransform ev (mapFrameId s) sensorFrameId timeStamp of
           Inl ex \<Rightarrow> (s, [ROS_ERROR (what ex)])
         | Inr transformationSensorToMap \<Rightarrow>
             (let s1 = s\<lparr>engine := engine s @
                         [Input (points cloud)
                                (rotation transformationSensorToMap)
                                (translation transformationSensorToMap)
                                (positionError s)
                                (orientationError s)]\<rparr>;
                  s2 = s1\<lparr>gridMap := get_grid_map ev (engine s1) (gridMap s1),
                          engine := engine s1 @ [GetGridMap]\<rparr>;
                  msg = toMessage (gridMap s2) (gm_layers (gridMap s2));
                  msg' = msg\<lparr>msg_stamp := now\<rparr>
              in (s2,
                  [Lock, Access by_get_grid_map, Access by_toMessage, Unlock,
                   Publish mapPub (MapMessage msg'),
                   Publish alivePub EmptyMessage]
                  @ (if enablePointCloudPublishing s2 then publishAsPointCloud s2 else []))))"

definition poseCallback :: "PoseWithCovarianceStamped \<Rightarrow> node \<Rightarrow> node" where
  "poseCallback pose s =
     (let position = (fst (pose_position pose), fst (snd (pose_position pose)));
          s1 = s\<lparr>engine := engine s @ [MoveTo position]\<rparr>;
          position3 = pose_position pose;
          orientation = pose_orientation pose;
          s2 = s1\<lparr>lowpassPosition :=
                    add3 (scale3 (positionAlpha s1) position3)
                         (scale3 (1 - positionAlpha s1) (lowpassPosition s1))\<rparr>;
          s3 = s2\<lparr>lowpassOrientation :=
                    add4 (scale4 (orientationAlpha s2) orientation)
                         (scale4 (1 - orientationAlpha s2) (lowpassOrientation s2))\<rparr>;
          s4 = s3\<lparr>positionError := norm3 (sub3 position3 (lowpassPosition s3))\<rparr>;
          s5 = s4\<lparr>orientationError := norm4 (sub4 orientation (lowpassOrientation s4))\<rparr>
      in s5)"

text \<open>
  The submap handler reads the cache through the library's \<open>getSubmap\<close> (supplied by
  the environment: the extracted map and its success flag), adds nine layers that all
  hold the same zero matrix, and serializes the local result. It takes no lock.
\<close>

definition getSubmap ::
    "env \<Rightarrow> GetGridMapRequest \<Rightarrow> node \<Rightarrow> (bool \<times> GridMapMsg) \<times> event list" where
  "getSubmap ev request s =
     (let requestedSubmapPosition = (position_x request, position_y request);
          requestedSubmapLength = (length_x request, length_y request);
          (subMap0, isSuccess) =
             GridMap_getSubmap ev (gridMap s) requestedSubmapPosition requestedSubmapLength;
          length = gm_length subMap0;
          zero = MatrixXd_Zero (to_Index (fst length)) (to_Index (snd length));
          subMap1 = add ''horizontal_variance_x'' zero subMap0;
          subMap2 = add ''horizontal_variance_y'' zero subMap1;
          subMap3 = add ''horizontal_variance_xy'' zero subMap2;
          subMap4 = add ''time'' zero subMap3;
          subMap5 = add ''color'' zero subMap4;
          subMap6 = add ''lowest_scan_point'' zero subMap5;
          subMap7 = add ''sensor_x_at_lowest_scan'' zero subMap6;
          subMap8 = add ''sensor_y_at_lowest_scan'' zero subMap7;
          subMap = add ''sensor_z_at_lowest_scan'' zero subMap8;
          response_map =
            (if req_layers request = [] then toMessage subMap (gm_layers subMap)
             else toMessage subMap (req_layers request))
      in ((isSuccess, response_map), [Access by_getSubmap, toMessage_local]))"

definition clearMap :: "node \<Rightarrow> bool \<times> node" where
  "clearMap s = (True, s\<lparr>engine := engine s @ [Clear]\<rparr>)"

definition setPublishPoint :: "bool \<Rightarrow> node \<Rightarrow> (bool \<times> bool) \<times> node" where
  "setPublishPoint data s = ((True, True), s\<lparr>enablePointCloudPublishing := data\<rparr>)"

text \<open>The scoped lock of the timer callback lives to the end of the \<open>if\<close> block.\<close>

definition timerCallback :: "node \<Rightarrow> event list" where
  "timerCallback s =
     (if exists_layer (gridMap s) ''elevation''
      then [Access by_exists, Lock, Access by_toMessage,
            Publish recordablePub (MapMessage (toMessage (gridMap s) [''elevation''])),
            Unlock]
      else [Access by_exists])"

section \<open>Dispatch\<close>

text \<open>
  What the transport delivers to the node. A timer event is delivered only by a timer
  that was created.
\<close>

datatype callback =
    PoseMsg PoseWithCovarianceStamped
  | CloudMsg PointCloud2 nat
  | GetSubmapReq GetGridMapRequest
  | ClearMapReq
  | SetPublishPointReq bool
  | TimerEvent

fun dispatch :: "env \<Rightarrow> callback \<Rightarrow> node \<Rightarrow> node \<times> event list" where
  "dispatch ev (PoseMsg pose) s = (poseCallback pose s, [])"
| "dispatch ev (CloudMsg cloud now) s = pointcloudCallback ev now cloud s"
| "dispatch ev (GetSubmapReq request) s = (s, snd (getSubmap ev request s))"
| "dispatch ev ClearMapReq s = (snd (clearMap s), [])"
| "dispatch ev (SetPublishPointReq data) s = (snd (setPublishPoint data s), [])"
| "dispatch ev TimerEvent s =
     (case recordableTimer s of None \<Rightarrow> (s, []) | Some period \<Rightarrow> (s, timerCallback s))"

fun spin :: "env \<Rightarrow> callback list \<Rightarrow> node \<Rightarrow> node \<times> event list" where
  "spin ev [] s = (s, [])"
| "spin ev (c # cs) s =
     (let (s', tr) = dispatch ev c s; (s'', tr') = spin ev cs s' in (s'', tr @ tr'))"

section \<open>Reference definitions for the claims\<close>

text \<open>
  The exponential moving average as the specification words it: \<open>s\<^sub>0 = (0, 0, 0)\<close> and
  \<open>s\<^sub>k = alpha * raw\<^sub>k + (1 - alpha) * s\<^sub>k\<^sub>-\<^sub>1\<close>, the samples numbered from 1.
\<close>

fun ema :: "real \<Rightarrow> (nat \<Rightarrow> Vector3d) \<Rightarrow> nat \<Rightarrow> Vector3d" where
  "ema alpha raw 0 = (0, 0, 0)"
| "ema alpha raw (Suc k) = add3 (scale3 alpha (raw (Suc k))) (scale3 (1 - alpha) (ema alpha raw k))"

text \<open>A run of pose callbacks, one per sample, in arrival order.\<close>

definition pose_run :: "PoseWithCovarianceStamped list \<Rightarrow> node \<Rightarrow> node" where
  "pose_run poses s = foldl (\<lambda>s pose. poseCallback pose s) s poses"

text \<open>The names of the nine layers the submap handler adds, in the order of the calls.\<close>

definition aux_layers :: "string list" where
  "aux_layers = [''horizontal_variance_x'', ''horizontal_variance_y'', ''horizontal_variance_xy'',
     ''time'', ''color'', ''lowest_scan_point'', ''sensor_x_at_lowest_scan'',
     ''sensor_y_at_lowest_scan'', ''sensor_z_at_lowest_scan'']"

text \<open>
  What the submap handler receives from the library's extraction, and the map its
  response carries.
\<close>

definition extracted_submap :: "env \<Rightarrow> GetGridMapRequest \<Rightarrow> node \<Rightarrow> GridMap" where
  "extracted_submap ev request s =
     fst (GridMap_getSubmap ev (gridMap s)
            (position_x request, position_y request) (length_x request, length_y request))"

definition response_map :: "env \<Rightarrow> GetGridMapRequest \<Rightarrow> node \<Rightarrow> GridMap" where
  "response_map ev request s = msg_map (snd (fst (getSubmap ev request s)))"

text \<open>
  Lock scope along a trace: \<open>annotate\<close> pairs each event with the number of times the
  (recursive) lock is held when the event happens. \<open>reads_under_lock\<close> and
  \<open>lock_only_for_copy\<close> are the two halves of the locking rule of the specification:
  every read of the cache happens under the lock, and no serialization or publish does.
\<close>

fun annotate :: "nat \<Rightarrow> event list \<Rightarrow> (nat \<times> event) list" where
  "annotate d [] = []"
| "annotate d (Lock # es) = (d, Lock) # annotate (Suc d) es"
| "annotate d (Unlock # es) = (d, Unlock) # annotate (d - 1) es"
| "annotate d (e # es) = (d, e) # annotate d es"

fun reads_cache :: "event \<Rightarrow> bool" where
  "reads_cache (Access by_get_grid_map) = False"
| "reads_cache (Access a) = True"
| "reads_cache e = False"

fun is_serialization :: "event \<Rightarrow> bool" where
  "is_serialization (Access by_toMessage) = True"
| "is_serialization (Access by_toPointCloud) = True"
| "is_serialization toMessage_local = True"
| "is_serialization e = False"

fun is_publish :: "event \<Rightarrow> bool" where
  "is_publish (Publish p m) = True"
| "is_publish e = False"

definition reads_under_lock :: "event list \<Rightarrow> bool" where
  "reads_under_lock tr = list_all (\<lambda>(d, e). reads_cache e \<longrightarrow> 0 < d) (annotate 0 tr)"

definition lock_only_for_copy :: "event list \<Rightarrow> bool" where
  "lock_only_for_copy tr =
     list_all (\<lambda>(d, e). is_serialization e \<or> is_publish e \<longrightarrow> d = 0) (annotate 0 tr)"

text \<open>
  A delivery that refreshes the cache: a point cloud whose transform lookup, for the
  node's map frame, succeeds.
\<close>

definition processed_scan :: "env \<Rightarrow> string \<Rightarrow> callback \<Rightarrow> bool" where
  "processed_scan ev frame c =
     (case c of
        CloudMsg cloud now \<Rightarrow>
          (case lookupTransform ev frame (frame_id cloud) (stamp cloud) of
             Inl ex \<Rightarrow> False
           | Inr T \<Rightarrow> True)
      | _ \<Rightarrow> False)"

section \<open>A concrete environment\<close>

text \<open>
  An environment to run the node in: a transform listener that knows the frame
  \<open>lidar\<close> only, an engine whose map holds one elevation layer of 2 by 3 cells at 0.5 m
  per cell once a scan was fused and is empty after a clear, and an extraction that
  answers every request with the whole map.
\<close>

definition default_config :: config where
  "default_config = \<lparr>cfg_pointcloud_topics = None, cfg_pose_topic = None, cfg_map_frame = None,
     cfg_position_lowpass_alpha = None, cfg_orientation_lowpass_alpha = None,
     cfg_recordable_fps = None, cfg_enable_pointcloud_publishing = None\<rparr>"

definition zero_config :: config where
  "zero_config = default_config\<lparr>cfg_recordable_fps := Some 0\<rparr>"

definition overdamped_config :: config where
  "overdamped_config = default_config\<lparr>cfg_orientation_lowpass_alpha := Some (3 / 2)\<rparr>"

fun fused :: "bool \<Rightarrow> engine_call list \<Rightarrow> bool" where
  "fused b [] = b"
| "fused b (Input pts r t pe oe # cs) = fused True cs"
| "fused b (Clear # cs) = fused False cs"
| "fused b (c # cs) = fused b cs"

definition demo_get_grid_map :: "engine_call list \<Rightarrow> GridMap \<Rightarrow> GridMap" where
  "demo_get_grid_map calls g =
     (if fused False calls
      then \<lparr>frameId = frameId g, timestamp = 0, gm_length = (1, 3 / 2), gm_size = (2, 3),
            gm_position = (0, 0), gm_resolution = 1 / 2, gm_layers = [''elevation''],
            gm_data = [(''elevation'',
               \<lparr>rows = 2, cols = 3, coeffs = [3 / 2, 3 / 2, 3 / 2, 3 / 2, 3 / 2, 3 / 2]\<rparr>)]\<rparr>
      else default_GridMap\<lparr>frameId := frameId g\<rparr>)"

definition demo_lookupTransform ::
    "string \<Rightarrow> string \<Rightarrow> nat \<Rightarrow> TransformException + Affine3d" where
  "demo_lookupTransform target source t =
     (if source = ''lidar''
      then Inr \<lparr>rotation = [1, 0, 0, 0, 1, 0, 0, 0, 1], translation = (0, 0, 1)\<rparr>
      else Inl (TransformException MissingFrame ''frame does not exist''))"

definition demo_env :: env where
  "demo_env = \<lparr>lookupTransform = demo_lookupTransform,
               get_grid_map = demo_get_grid_map,
               GridMap_getSubmap = (\<lambda>g position length. (g, True))\<rparr>"

definition demo_cloud :: "string \<Rightarrow> PointCloud2" where
  "demo_cloud frame = \<lparr>frame_id = frame, stamp = 5, points = [(1, 0, 0)]\<rparr>"

definition demo_request :: GetGridMapRequest where
  "demo_request = \<lparr>position_x = 0, position_y = 0, length_x = 1, length_y = 3 / 2, req_layers = []\<rparr>"

definition demo_node :: node where
  "demo_node = fst (pointcloudCallback demo_env 9 (demo_cloud ''lidar'') (constructor default_config))"

section \<open>Facts about the model\<close>

subsection \<open>The low-pass filter\<close>

text \<open>
  The residual of a sample against the state it was just blended into is the
  residual against the previous state, scaled by \<open>\<bar>1 - alpha\<bar>\<close>.
\<close>

lemma residual3:
  "norm3 (sub3 p (add3 (scale3 a p) (scale3 (1 - a) q))) = \<bar>1 - a\<bar> * norm3 (sub3 p q)"
proof -
  obtain x y z where p: "p = (x, y, z)" by (cases p)
  obtain x' y' z' where q: "q = (x', y', z')" by (cases q)
  have "(x - (a * x + (1 - a) * x')) * (x - (a * x + (1 - a) * x'))
        + (y - (a * y + (1 - a) * y')) * (y - (a * y + (1 - a) * y'))
        + (z - (a * z + (1 - a) * z')) * (z - (a * z + (1 - a) * z'))
      = (1 - a)\<^sup>2 * ((x - x') * (x - x') + (y - y') * (y - y') + (z - z') * (z - z'))"
    by (simp add: power2_eq_square algebra_simps)
  then show ?thesis
    by (simp add: p q real_sqrt_mult)
qed

lemma residual4:
  "norm4 (sub4 p (add4 (scale4 a p) (scale4 (1 - a) q))) = \<bar>1 - a\<bar> * norm4 (sub4 p q)"
proof -
  obtain x y z w where p: "p = (x, y, z, w)" by (cases p)
  obtain x' y' z' w' where q: "q = (x', y', z', w')" by (cases q)
  have "(x - (a * x + (1 - a) * x')) * (x - (a * x + (1 - a) * x'))
        + (y - (a * y + (1 - a) * y')) * (y - (a * y + (1 - a) * y'))
        + (z - (a * z + (1 - a) * z')) * (z - (a * z + (1 - a) * z'))
        + (w - (a * w + (1 - a) * w')) * (w - (a * w + (1 - a) * w'))
      = (1 - a)\<^sup>2 * ((x - x') * (x - x') + (y - y') * (y - y') + (z - z') * (z - z')
          + (w - w') * (w - w'))"
    by (simp add: power2_eq_square algebra_simps)
  then show ?thesis
    by (simp add: p q real_sqrt_mult)
qed

lemma poseCallback_fields:
  "lowpassPosition (poseCallback pose s) =
     add3 (scale3 (positionAlpha s) (pose_position pose))
          (scale3 (1 - positionAlpha s) (lowpassPosition s))"
  "lowpassOrientation (poseCallback pose s) =
     add4 (scale4 (orientationAlpha s) (pose_orientation pose))
          (scale4 (1 - orientationAlpha s) (lowpassOrientation s))"
  "positionError (poseCallback pose s) =
     norm3 (sub3 (pose_position pose) (lowpassPosition (poseCallback pose s)))"
  "orientationError (poseCallback pose s) =
     norm4 (sub4 (pose_orientation pose) (lowpassOrientation (poseCallback pose s)))"
  "positionAlpha (poseCallback pose s) = positionAlpha s"
  "orientationAlpha (poseCallback pose s) = orientationAlpha s"
  by (simp_all add: poseCallback_def Let_def)

lemma pose_run_snoc: "pose_run (poses @ [pose]) s = poseCallback pose (pose_run poses s)"
  by (simp add: pose_run_def)

lemma pose_run_positionAlpha: "positionAlpha (pose_run poses s) = positionAlpha s"
  by (induction poses rule: rev_induct) (simp_all add: pose_run_snoc poseCallback_fields, simp add: pose_run_def)

lemma ema_cong: "(\<And>k. 1 \<le> k \<Longrightarrow> k \<le> n \<Longrightarrow> f k = g k) \<Longrightarrow> ema a f n = ema a g n"
  by (induction n) simp_all

lemma constructor_lowpass:
  "lowpassPosition (constructor cfg) = (0, 0, 0)"
  "lowpassOrientation (constructor cfg) = (0, 0, 0, 1)"
  "positionAlpha (constructor cfg) = param (cfg_position_lowpass_alpha cfg) 0.2"
  "orientationAlpha (constructor cfg) = param (cfg_orientation_lowpass_alpha cfg) 0.2"
  by (simp_all add: constructor_def Let_def)

subsection \<open>The concrete environment\<close>

lemma demo_lookup_ok:
  "lookupTransform demo_env (mapFrameId s) (frame_id (demo_cloud ''lidar'')) (stamp (demo_cloud ''lidar''))
     = Inr \<lparr>rotation = [1, 0, 0, 0, 1, 0, 0, 0, 1], translation = (0, 0, 1)\<rparr>"
  by (simp add: demo_env_def demo_lookupTransform_def demo_cloud_def)

lemma constructor_default:
  "constructor default_config =
     \<lparr>lowpassPosition = (0, 0, 0), lowpassOrientation = (0, 0, 0, 1),
      positionError = 0, orientationError = 0,
      positionAlpha = 1 / 5, orientationAlpha = 1 / 5,
      enablePointCloudPublishing = False, recordableFps = 3,
      mapFrameId = ''map'', gridMap = default_GridMap\<lparr>frameId := ''map''\<rparr>,
      engine = [Initialize], pointcloudSubs = [''points''], poseSub = ''pose'',
      recordableTimer = Some (100000 / 300001)\<rparr>"
  by (simp add: constructor_def default_config_def param_def setFrameId_def)

lemma demo_node_eq:
  "demo_node =
     \<lparr>lowpassPosition = (0, 0, 0), lowpassOrientation = (0, 0, 0, 1),
      positionError = 0, orientationError = 0,
      positionAlpha = 1 / 5, orientationAlpha = 1 / 5,
      enablePointCloudPublishing = False, recordableFps = 3,
      mapFrameId = ''map'',
      gridMap = \<lparr>frameId = ''map'', timestamp = 0, gm_length = (1, 3 / 2), gm_size = (2, 3),
        gm_position = (0, 0), gm_resolution = 1 / 2, gm_layers = [''elevation''],
        gm_data = [(''elevation'',
           \<lparr>rows = 2, cols = 3, coeffs = [3 / 2, 3 / 2, 3 / 2, 3 / 2, 3 / 2, 3 / 2]\<rparr>)]\<rparr>,
      engine = [Initialize,
                Input [(1, 0, 0)] [1, 0, 0, 0, 1, 0, 0, 0, 1] (0, 0, 1) 0 0,
                GetGridMap],
      pointcloudSubs = [''points''], poseSub = ''pose'',
      recordableTimer = Some (100000 / 300001)\<rparr>"
  by (simp add: demo_node_def pointcloudCallback_def constructor_default Let_def
      demo_cloud_def demo_env_def demo_lookupTransform_def demo_get_grid_map_def
      default_GridMap_def)

subsection \<open>The submap handler\<close>

lemma map_of_overwrite:
  "map_of (overwrite k v kvs) k' =
     (if k' = k \<and> map_of kvs k \<noteq> None then Some v else map_of kvs k')"
  by (induction kvs) auto

lemma map_of_add:
  "map_of (gm_data (add layer d g)) l = (if l = layer then Some d else map_of (gm_data g) l)"
  by (auto simp: add_def exists_layer_def map_of_overwrite map_add_def split: option.splits)

lemma gm_length_add: "gm_length (add layer d g) = gm_length g"
  by (simp add: add_def)

lemma gm_size_add: "gm_size (add layer d g) = gm_size g"
  by (simp add: add_def)

lemma getSubmap_response_map:
  "msg_map (snd (fst (getSubmap ev request s))) =
     (let subMap0 = fst (GridMap_getSubmap ev (gridMap s)
                      (position_x request, position_y request) (length_x request, length_y request));
          zero = MatrixXd_Zero (to_Index (fst (gm_length subMap0))) (to_Index (snd (gm_length subMap0)))
      in add ''sensor_z_at_lowest_scan'' zero (add ''sensor_y_at_lowest_scan'' zero
        (add ''sensor_x_at_lowest_scan'' zero (add ''lowest_scan_point'' zero
        (add ''color'' zero (add ''time'' zero (add ''horizontal_variance_xy'' zero
        (add ''horizontal_variance_y'' zero (add ''horizontal_variance_x'' zero subMap0)))))))))"
  by (simp add: getSubmap_def Let_def toMessage_def split: prod.splits)

lemma response_map_lookup:
  "layer \<in> set aux_layers \<Longrightarrow>
     map_of (gm_data (response_map ev request s)) layer =
       Some (MatrixXd_Zero (to_Index (fst (gm_length (extracted_submap ev request s))))
                           (to_Index (snd (gm_length (extracted_submap ev request s)))))"
  by (auto simp: response_map_def extracted_submap_def getSubmap_response_map Let_def
      map_of_add aux_layers_def)

lemma response_map_size:
  "gm_size (response_map ev request s) = gm_size (extracted_submap ev request s)"
  by (simp add: response_map_def extracted_submap_def getSubmap_response_map Let_def gm_size_add)

lemma demo_extracted_geometry:
  "gm_length (extracted_submap demo_env demo_request demo_node) = (1, 3 / 2)"
  "gm_size (extracted_submap demo_env demo_request demo_node) = (2, 3)"
  by (simp_all add: extracted_submap_def demo_env_def demo_node_eq)

lemma response_map_other_layer:
  "layer \<notin> set aux_layers \<Longrightarrow>
     map_of (gm_data (response_map ev request s)) layer =
     map_of (gm_data (extracted_submap ev request s)) layer"
  by (simp add: response_map_def extracted_submap_def getSubmap_response_map Let_def
      map_of_add aux_layers_def)

lemma demo_post_clear_snapshot:
  "get_grid_map demo_env (engine (snd (clearMap demo_node))) (gridMap demo_node)
     = default_GridMap\<lparr>frameId := ''map''\<rparr>"
  by (simp add: clearMap_def demo_node_eq demo_env_def demo_get_grid_map_def default_GridMap_def)

lemma demo_extract_whole: "extracted_submap demo_env request s = gridMap s"
  by (simp add: extracted_submap_def demo_env_def)

text \<open>
  The handler passes on the flag of the library's extraction as it is, and hands the
  serializer the requested layer names, or every layer of the map when none is named.
\<close>

lemma getSubmap_flag:
  "fst (fst (getSubmap ev request s)) =
     snd (GridMap_getSubmap ev (gridMap s)
            (position_x request, position_y request) (length_x request, length_y request))"
  by (simp add: getSubmap_def Let_def split: prod.splits)

lemma getSubmap_layers:
  "msg_layers (snd (fst (getSubmap ev request s))) =
     (if req_layers request = [] then gm_layers (response_map ev request s)
      else req_layers request)"
  by (simp add: response_map_def getSubmap_def Let_def toMessage_def split: prod.splits)

subsection \<open>Who writes the cache\<close>

lemma dispatch_keeps_mapFrameId: "mapFrameId (fst (dispatch ev c s)) = mapFrameId s"
  by (cases c)
     (simp_all add: poseCallback_def pointcloudCallback_def clearMap_def setPublishPoint_def
        Let_def split: sum.splits option.splits)

lemma dispatch_keeps_cache:
  "\<not> processed_scan ev (mapFrameId s) c \<Longrightarrow> gridMap (fst (dispatch ev c s)) = gridMap s"
  by (cases c)
     (simp_all add: processed_scan_def poseCallback_def pointcloudCallback_def clearMap_def
        setPublishPoint_def Let_def split: sum.splits option.splits)

lemma spin_keeps_cache:
  "\<forall>c \<in> set cs. \<not> processed_scan ev (mapFrameId s) c \<Longrightarrow>
     gridMap (fst (spin ev cs s)) = gridMap s"
proof (induction cs arbitrary: s)
  case Nil
  show ?case by simp
next
  case (Cons c cs)
  let ?s' = "fst (dispatch ev c s)"
  from Cons.prems have here: "\<not> processed_scan ev (mapFrameId s) c"
    and rest: "\<forall>c' \<in> set cs. \<not> processed_scan ev (mapFrameId ?s') c'"
    by (simp_all add: dispatch_keeps_mapFrameId)
  from Cons.IH [OF rest] dispatch_keeps_cache [OF here]
  show ?case by (simp add: split_beta)
qed

lemma getSubmap_cache_only:
  "gridMap s' = gridMap s \<Longrightarrow> getSubmap ev request s' = getSubmap ev request s"
  by (simp add: getSubmap_def)

lemma scan_refreshes_cache:
  "lookupTransform ev (mapFrameId s) (frame_id cloud) (stamp cloud) = Inr T \<Longrightarrow>
     gridMap (fst (pointcloudCallback ev now cloud s)) =
       get_grid_map ev
         (engine s @ [Input (points cloud) (rotation T) (translation T)
                        (positionError s) (orientationError s)])
         (gridMap s)"
  by (simp add: pointcloudCallback_def Let_def)

subsection \<open>The throttle timer\<close>

lemma dispatch_keeps_timer: "recordableTimer (fst (dispatch ev c s)) = recordableTimer s"
  by (cases c)
     (simp_all add: poseCallback_def pointcloudCallback_def clearMap_def setPublishPoint_def
        Let_def split: sum.splits option.splits)

lemma dispatch_no_recordable:
  "recordableTimer s = None \<Longrightarrow> Publish recordablePub m \<notin> set (snd (dispatch ev c s))"
  by (cases c)
     (simp_all add: pointcloudCallback_def getSubmap_def publishAsPointCloud_def
        Let_def split: sum.splits prod.splits)

lemma spin_no_recordable:
  "recordableTimer s = None \<Longrightarrow> Publish recordablePub m \<notin> set (snd (spin ev cs s))"
proof (induction cs arbitrary: s)
  case Nil
  show ?case by simp
next
  case (Cons c cs)
  have "recordableTimer (fst (dispatch ev c s)) = None"
    using Cons.prems by (simp add: dispatch_keeps_timer)
  from Cons.IH [OF this] dispatch_no_recordable [OF Cons.prems, of m ev c]
  show ?case
    by (simp add: split_beta)
qed

lemma constructor_timer:
  "recordableFps (constructor cfg) = param (cfg_recordable_fps cfg) 3"
  "recordableTimer (constructor cfg) =
     (if 0 < recordableFps (constructor cfg)
      then Some (1 / (recordableFps (constructor cfg) + 1 / 100000)) else None)"
  by (simp_all add: constructor_def Let_def)

section \<open>The claims\<close>

text \<open>
  C1. When the lookup of the transform from the cloud's sensor frame to the map frame
  fails, the point-cloud callback returns the node as it was: the engine has received
  no further call (so no \<open>input\<close>), the cached grid map is the same, and the only
  event is the error log; nothing is published on any publisher.
\<close>

theorem pointcloudCallback_lookup_failure:
  assumes "lookupTransform ev (mapFrameId s) (frame_id cloud) (stamp cloud) = Inl ex"
  shows "fst (pointcloudCallback ev now cloud s) = s
       \<and> engine (fst (pointcloudCallback ev now cloud s)) = engine s
       \<and> gridMap (fst (pointcloudCallback ev now cloud s)) = gridMap s
       \<and> snd (pointcloudCallback ev now cloud s) = [ROS_ERROR (what ex)]
       \<and> (\<forall>p m. Publish p m \<notin> set (snd (pointcloudCallback ev now cloud s)))"
  using assms by (simp add: pointcloudCallback_def)

text \<open>
  C1, witness: a cloud in the unknown frame \<open>camera\<close> makes the lookup fail; the freshly
  constructed node comes back unchanged with the error message logged.
\<close>

theorem pointcloudCallback_lookup_failure_witness:
  "lookupTransform demo_env (mapFrameId (constructor default_config))
       (frame_id (demo_cloud ''camera'')) (stamp (demo_cloud ''camera''))
     = Inl (TransformException MissingFrame ''frame does not exist'')
   \<and> pointcloudCallback demo_env 9 (demo_cloud ''camera'') (constructor default_config)
     = (constructor default_config, [ROS_ERROR ''frame does not exist''])"
proof -
  have h: "lookupTransform demo_env (mapFrameId (constructor default_config))
       (frame_id (demo_cloud ''camera'')) (stamp (demo_cloud ''camera''))
     = Inl (TransformException MissingFrame ''frame does not exist'')"
    by (simp add: demo_env_def demo_lookupTransform_def demo_cloud_def)
  from pointcloudCallback_lookup_failure [OF h, of 9] h show ?thesis
    by (simp add: prod_eq_iff)
qed

text \<open>
  C2, as stated, fails: the submap handler reads the cache through \<open>getSubmap\<close> with
  no lock held, and the point-cloud callback serializes the cache while it holds the
  lock.
\<close>

theorem lock_discipline_counterexample:
  "\<not> reads_under_lock (snd (getSubmap demo_env demo_request demo_node))
   \<and> \<not> lock_only_for_copy
        (snd (pointcloudCallback demo_env 9 (demo_cloud ''lidar'') (constructor default_config)))"
  by (simp add: reads_under_lock_def lock_only_for_copy_def getSubmap_def pointcloudCallback_def
      demo_lookup_ok Let_def publishAsPointCloud_def split: prod.splits)

text \<open>
  C2, amended. In a point-cloud callback whose lookup succeeds, the refresh of the
  cache from the engine and the serialization of the cache both happen with the lock
  held, both do happen, and every publish happens with the lock released. In the timer
  callback the serialization of the cache happens with the lock held.
\<close>

theorem lock_scope_of_callbacks:
  assumes "lookupTransform ev (mapFrameId s) (frame_id cloud) (stamp cloud) = Inr T"
  shows "(\<forall>(d, e) \<in> set (annotate 0 (snd (pointcloudCallback ev now cloud s))).
            (e = Access by_get_grid_map \<or> e = Access by_toMessage \<longrightarrow> 0 < d)
            \<and> (is_publish e \<longrightarrow> d = 0))
       \<and> Access by_get_grid_map \<in> set (snd (pointcloudCallback ev now cloud s))
       \<and> Access by_toMessage \<in> set (snd (pointcloudCallback ev now cloud s))
       \<and> (\<forall>(d, e) \<in> set (annotate 0 (timerCallback s)). e = Access by_toMessage \<longrightarrow> 0 < d)"
  using assms
  by (simp add: pointcloudCallback_def Let_def publishAsPointCloud_def timerCallback_def)

text \<open>
  C2, witness: a scan in the frame \<open>lidar\<close>, and a timer tick on a cache that has an
  elevation layer; in both the serialization is found at lock depth 1.
\<close>

theorem lock_scope_of_callbacks_witness:
  "lookupTransform demo_env (mapFrameId demo_node) (frame_id (demo_cloud ''lidar''))
       (stamp (demo_cloud ''lidar''))
     = Inr \<lparr>rotation = [1, 0, 0, 0, 1, 0, 0, 0, 1], translation = (0, 0, 1)\<rparr>
   \<and> (1, Access by_toMessage)
       \<in> set (annotate 0 (snd (pointcloudCallback demo_env 9 (demo_cloud ''lidar'') demo_node)))
   \<and> (1, Access by_toMessage) \<in> set (annotate 0 (timerCallback demo_node))"
proof -
  note h = demo_lookup_ok [of demo_node]
  from lock_scope_of_callbacks [OF h, of 9] h show ?thesis
    by (simp add: pointcloudCallback_def timerCallback_def demo_node_eq exists_layer_def)
qed

text \<open>
  C3. The pose callback first replaces each smoothed accumulator by
  \<open>alpha * raw + (1 - alpha) * smoothed\<close>, the position with \<open>positionAlpha\<close> and the
  orientation with \<open>orientationAlpha\<close>, componentwise; the two errors are then the
  Euclidean norms of the raw sample minus the accumulator after the update. Therefore
  each error is \<open>\<bar>1 - alpha\<bar>\<close> times the distance of the raw sample from the accumulator
  before the update, and there are samples for which it is not that distance itself
  (the value that comparing before filtering would give).
\<close>

theorem poseCallback_filter_then_compare:
  "lowpassPosition (poseCallback pose s) =
     add3 (scale3 (positionAlpha s) (pose_position pose))
          (scale3 (1 - positionAlpha s) (lowpassPosition s))
   \<and> lowpassOrientation (poseCallback pose s) =
     add4 (scale4 (orientationAlpha s) (pose_orientation pose))
          (scale4 (1 - orientationAlpha s) (lowpassOrientation s))
   \<and> positionError (poseCallback pose s) =
     norm3 (sub3 (pose_position pose) (lowpassPosition (poseCallback pose s)))
   \<and> orientationError (poseCallback pose s) =
     norm4 (sub4 (pose_orientation pose) (lowpassOrientation (poseCallback pose s)))
   \<and> positionError (poseCallback pose s) =
     \<bar>1 - positionAlpha s\<bar> * norm3 (sub3 (pose_position pose) (lowpassPosition s))
   \<and> orientationError (poseCallback pose s) =
     \<bar>1 - orientationAlpha s\<bar> * norm4 (sub4 (pose_orientation pose) (lowpassOrientation s))
   \<and> (\<exists>s' pose'. positionError (poseCallback pose' s') \<noteq>
          norm3 (sub3 (pose_position pose') (lowpassPosition s')))"
proof -
  have update: "lowpassPosition (poseCallback pose s) =
       add3 (scale3 (positionAlpha s) (pose_position pose))
            (scale3 (1 - positionAlpha s) (lowpassPosition s))"
    "lowpassOrientation (poseCallback pose s) =
       add4 (scale4 (orientationAlpha s) (pose_orientation pose))
            (scale4 (1 - orientationAlpha s) (lowpassOrientation s))"
    by (rule poseCallback_fields)+
  have compare: "positionError (poseCallback pose s) =
       norm3 (sub3 (pose_position pose) (lowpassPosition (poseCallback pose s)))"
    "orientationError (poseCallback pose s) =
       norm4 (sub4 (pose_orientation pose) (lowpassOrientation (poseCallback pose s)))"
    by (rule poseCallback_fields)+
  have residual: "positionError (poseCallback pose' s') =
       \<bar>1 - positionAlpha s'\<bar> * norm3 (sub3 (pose_position pose') (lowpassPosition s'))"
    "orientationError (poseCallback pose' s') =
       \<bar>1 - orientationAlpha s'\<bar> * norm4 (sub4 (pose_orientation pose') (lowpassOrientation s'))"
    for pose' s'
    by (simp_all only: poseCallback_fields residual3 residual4)
  let ?p = "\<lparr>pose_position = (1, 0, 0), pose_orientation = (0, 0, 0, 1)\<rparr>"
  have "positionError (poseCallback ?p (constructor default_config)) = 4 / 5"
    by (simp add: residual(1) constructor_default)
  moreover have "norm3 (sub3 (pose_position ?p) (lowpassPosition (constructor default_config))) = 1"
    by (simp add: constructor_default)
  ultimately have "positionError (poseCallback ?p (constructor default_config)) \<noteq>
       norm3 (sub3 (pose_position ?p) (lowpassPosition (constructor default_config)))"
    by simp
  then have differs: "\<exists>s' pose'. positionError (poseCallback pose' s') \<noteq>
       norm3 (sub3 (pose_position pose') (lowpassPosition s'))"
    by blast
  from update compare residual [of pose s] differs show ?thesis
    by (intro conjI)
qed

text \<open>
  C4, as stated, fails. After one fused scan the cache holds the elevation layer;
  a clear followed at once by a submap request answers with that layer, while the
  engine's map after the clear is the empty default map.
\<close>

theorem submap_after_clear_counterexample:
  "fst (getSubmap demo_env demo_request (snd (clearMap demo_node)))
     \<noteq> fst (getSubmap demo_env demo_request
           (demo_node\<lparr>gridMap := get_grid_map demo_env (engine (snd (clearMap demo_node)))
                                    (gridMap demo_node)\<rparr>))
   \<and> map_of (gm_data (response_map demo_env demo_request (snd (clearMap demo_node)))) ''elevation''
     = Some \<lparr>rows = 2, cols = 3, coeffs = [3 / 2, 3 / 2, 3 / 2, 3 / 2, 3 / 2, 3 / 2]\<rparr>
   \<and> get_grid_map demo_env (engine (snd (clearMap demo_node))) (gridMap demo_node)
     = default_GridMap\<lparr>frameId := ''map''\<rparr>"
proof -
  let ?cleared = "snd (clearMap demo_node)"
  let ?fresh = "demo_node\<lparr>gridMap := get_grid_map demo_env (engine ?cleared) (gridMap demo_node)\<rparr>"
  have el: "''elevation'' \<notin> set aux_layers" by (simp add: aux_layers_def)
  have "gridMap ?cleared = gridMap demo_node" by (simp add: clearMap_def)
  then have stale: "map_of (gm_data (response_map demo_env demo_request ?cleared)) ''elevation''
      = Some \<lparr>rows = 2, cols = 3, coeffs = [3 / 2, 3 / 2, 3 / 2, 3 / 2, 3 / 2, 3 / 2]\<rparr>"
    by (simp add: response_map_other_layer [OF el] demo_extract_whole) (simp add: demo_node_eq)
  have "gridMap ?fresh = default_GridMap\<lparr>frameId := ''map''\<rparr>"
    by (simp add: demo_post_clear_snapshot)
  then have fresh: "map_of (gm_data (response_map demo_env demo_request ?fresh)) ''elevation'' = None"
    by (simp add: response_map_other_layer [OF el] demo_extract_whole default_GridMap_def)
  from stale fresh have "response_map demo_env demo_request ?cleared
      \<noteq> response_map demo_env demo_request ?fresh"
    by auto
  then have "fst (getSubmap demo_env demo_request ?cleared) \<noteq> fst (getSubmap demo_env demo_request ?fresh)"
    by (auto simp: response_map_def)
  with stale demo_post_clear_snapshot show ?thesis by blast
qed

text \<open>
  C4, amended. A clear followed at once by a submap request gives the response, flag
  and events that the same request gives without the clear: the handler extracts from
  the cached grid map, which the clear leaves as it is. The cache, and with it the
  answer to the request, stays so over every run of deliveries after the clear that
  holds no point cloud with a successful transform lookup; such a point cloud puts
  into the cache what the engine hands out after the clear and that scan.
\<close>

theorem submap_after_clear_reads_cache:
  "getSubmap ev request (snd (clearMap s)) = getSubmap ev request s
   \<and> gridMap (snd (clearMap s)) = gridMap s
   \<and> ((\<forall>c \<in> set cs. \<not> processed_scan ev (mapFrameId s) c) \<longrightarrow>
        gridMap (fst (spin ev cs (snd (clearMap s)))) = gridMap s
        \<and> getSubmap ev request (fst (spin ev cs (snd (clearMap s)))) = getSubmap ev request s)
   \<and> (lookupTransform ev (mapFrameId s) (frame_id cloud) (stamp cloud) = Inr T \<longrightarrow>
        gridMap (fst (pointcloudCallback ev now cloud (snd (clearMap s)))) =
          get_grid_map ev
            (engine s @ [Clear, Input (points cloud) (rotation T) (translation T)
                                  (positionError s) (orientationError s)])
            (gridMap s))"
proof (intro conjI impI)
  let ?cleared = "snd (clearMap s)"
  show kept: "gridMap ?cleared = gridMap s"
    by (simp add: clearMap_def)
  then show "getSubmap ev request ?cleared = getSubmap ev request s"
    by (rule getSubmap_cache_only)
  have frame: "mapFrameId ?cleared = mapFrameId s"
    and calls: "engine ?cleared = engine s @ [Clear]"
    and errs: "positionError ?cleared = positionError s"
      "orientationError ?cleared = orientationError s"
    by (simp_all add: clearMap_def)
  {
    assume "\<forall>c \<in> set cs. \<not> processed_scan ev (mapFrameId s) c"
    then have "\<forall>c \<in> set cs. \<not> processed_scan ev (mapFrameId ?cleared) c"
      by (simp add: frame)
    then have "gridMap (fst (spin ev cs ?cleared)) = gridMap ?cleared"
      by (rule spin_keeps_cache)
    with kept show stale: "gridMap (fst (spin ev cs ?cleared)) = gridMap s"
      by simp
    then show "getSubmap ev request (fst (spin ev cs ?cleared)) = getSubmap ev request s"
      by (rule getSubmap_cache_only)
  }
  {
    assume "lookupTransform ev (mapFrameId s) (frame_id cloud) (stamp cloud) = Inr T"
    then have "lookupTransform ev (mapFrameId ?cleared) (frame_id cloud) (stamp cloud) = Inr T"
      by (simp add: frame)
    from scan_refreshes_cache [OF this, of now]
    show "gridMap (fst (pointcloudCallback ev now cloud ?cleared)) =
          get_grid_map ev
            (engine s @ [Clear, Input (points cloud) (rotation T) (translation T)
                                  (positionError s) (orientationError s)])
            (gridMap s)"
      by (simp add: calls errs kept)
  }
qed

text \<open>
  C4, witness: after a clear, a timer event, a scan in the unknown frame \<open>camera\<close>, a
  submap request and a toggle of the republishing flag leave the cache as it was,
  which is not the engine's map after the clear; a scan in the frame \<open>lidar\<close>
  replaces it by the engine's map after that scan.
\<close>

theorem submap_after_clear_reads_cache_witness:
  "\<not> processed_scan demo_env (mapFrameId demo_node) TimerEvent
   \<and> \<not> processed_scan demo_env (mapFrameId demo_node) (CloudMsg (demo_cloud ''camera'') 9)
   \<and> \<not> processed_scan demo_env (mapFrameId demo_node) (GetSubmapReq demo_request)
   \<and> \<not> processed_scan demo_env (mapFrameId demo_node) (SetPublishPointReq True)
   \<and> gridMap (fst (spin demo_env
        [TimerEvent, CloudMsg (demo_cloud ''camera'') 9, GetSubmapReq demo_request,
         SetPublishPointReq True] (snd (clearMap demo_node)))) = gridMap demo_node
   \<and> lookupTransform demo_env (mapFrameId demo_node) (frame_id (demo_cloud ''lidar''))
        (stamp (demo_cloud ''lidar''))
      = Inr \<lparr>rotation = [1, 0, 0, 0, 1, 0, 0, 0, 1], translation = (0, 0, 1)\<rparr>
   \<and> gridMap (fst (pointcloudCallback demo_env 9 (demo_cloud ''lidar'') (snd (clearMap demo_node))))
      = gridMap demo_node
   \<and> gridMap (snd (clearMap demo_node)) \<noteq> get_grid_map demo_env (engine (snd (clearMap demo_node)))
        (gridMap demo_node)"
proof -
  let ?cs = "[TimerEvent, CloudMsg (demo_cloud ''camera'') 9, GetSubmapReq demo_request,
              SetPublishPointReq True]"
  have quiet: "\<forall>c \<in> set ?cs. \<not> processed_scan demo_env (mapFrameId demo_node) c"
    by (simp add: processed_scan_def demo_env_def demo_lookupTransform_def demo_cloud_def)
  note ok = demo_lookup_ok [of demo_node]
  note inst = submap_after_clear_reads_cache [of demo_env demo_request demo_node ?cs
      "demo_cloud ''lidar''" "\<lparr>rotation = [1, 0, 0, 0, 1, 0, 0, 0, 1], translation = (0, 0, 1)\<rparr>" 9]
  from inst quiet have stale: "gridMap (fst (spin demo_env ?cs (snd (clearMap demo_node)))) = gridMap demo_node"
    by blast
  from inst ok have "gridMap (fst (pointcloudCallback demo_env 9 (demo_cloud ''lidar'')
        (snd (clearMap demo_node)))) =
      get_grid_map demo_env
        (engine demo_node @ [Clear, Input (points (demo_cloud ''lidar''))
           (rotation \<lparr>rotation = [1, 0, 0, 0, 1, 0, 0, 0, 1], translation = (0, 0, 1)\<rparr>)
           (translation \<lparr>rotation = [1, 0, 0, 0, 1, 0, 0, 0, 1], translation = (0, 0, 1)\<rparr>)
           (positionError demo_node) (orientationError demo_node)])
        (gridMap demo_node)"
    by blast
  then have fresh: "gridMap (fst (pointcloudCallback demo_env 9 (demo_cloud ''lidar'')
        (snd (clearMap demo_node)))) = gridMap demo_node"
    by (simp add: demo_node_eq demo_env_def demo_get_grid_map_def demo_cloud_def)
  have differ: "gridMap (snd (clearMap demo_node)) \<noteq>
      get_grid_map demo_env (engine (snd (clearMap demo_node))) (gridMap demo_node)"
    by (simp add: demo_post_clear_snapshot) (simp add: clearMap_def demo_node_eq default_GridMap_def)
  from quiet stale ok fresh differ show ?thesis by simp
qed

text \<open>
  C6, as stated, fails: with the default rate of 3 Hz the timer is created, and its
  period is not 1 / 3.
\<close>

theorem throttle_period_counterexample:
  "0 < recordableFps (constructor default_config)
   \<and> recordableTimer (constructor default_config)
       \<noteq> Some (1 / recordableFps (constructor default_config))"
  by (simp add: constructor_default)

text \<open>
  C6, amended. The rate is the configured one (3 Hz when none is configured). For a
  rate of zero or less no timer is created, and no run of the node, whatever is
  delivered to it, publishes on the throttled publisher. For a positive rate the
  timer's period is \<open>1 / (rate + 0.00001)\<close>, which is positive and shorter than
  \<open>1 / rate\<close>.
\<close>

theorem throttle_timer:
  "recordableFps (constructor cfg) = param (cfg_recordable_fps cfg) 3
   \<and> (recordableFps (constructor cfg) \<le> 0 \<longrightarrow>
        recordableTimer (constructor cfg) = None
        \<and> (\<forall>ev cs m. Publish recordablePub m \<notin> set (snd (spin ev cs (constructor cfg)))))
   \<and> (0 < recordableFps (constructor cfg) \<longrightarrow>
        recordableTimer (constructor cfg) = Some (1 / (recordableFps (constructor cfg) + 1 / 100000))
        \<and> 0 < 1 / (recordableFps (constructor cfg) + 1 / 100000)
        \<and> 1 / (recordableFps (constructor cfg) + 1 / 100000) < 1 / recordableFps (constructor cfg))"
proof (intro conjI impI allI)
  assume le: "recordableFps (constructor cfg) \<le> 0"
  then show none: "recordableTimer (constructor cfg) = None"
    by (simp add: constructor_timer(2))
  fix ev cs m
  from none show "Publish recordablePub m \<notin> set (snd (spin ev cs (constructor cfg)))"
    by (rule spin_no_recordable)
next
  assume pos: "0 < recordableFps (constructor cfg)"
  then show "recordableTimer (constructor cfg) = Some (1 / (recordableFps (constructor cfg) + 1 / 100000))"
    by (simp add: constructor_timer(2))
  from pos show "0 < 1 / (recordableFps (constructor cfg) + 1 / 100000)"
    by simp
  from pos show "1 / (recordableFps (constructor cfg) + 1 / 100000) < 1 / recordableFps (constructor cfg)"
    by (simp add: frac_less2)
qed (rule constructor_timer(1))

text \<open>
  C6, witness: at rate 0 there is no timer and a scan followed by a timer event
  publishes nothing on the throttled publisher; at the default rate the period is
  100000 / 300001 s.
\<close>

theorem throttle_timer_witness:
  "recordableFps (constructor zero_config) \<le> 0
   \<and> recordableTimer (constructor zero_config) = None
   \<and> Publish recordablePub (MapMessage (toMessage default_GridMap [''elevation'']))
       \<notin> set (snd (spin demo_env [CloudMsg (demo_cloud ''lidar'') 9, TimerEvent]
                     (constructor zero_config)))
   \<and> 0 < recordableFps (constructor default_config)
   \<and> recordableTimer (constructor default_config) = Some (100000 / 300001)"
proof -
  have z: "recordableFps (constructor zero_config) \<le> 0"
    by (simp add: constructor_timer(1) zero_config_def param_def)
  have d: "0 < recordableFps (constructor default_config)"
    by (simp add: constructor_default)
  from throttle_timer [of zero_config] z
  have none: "recordableTimer (constructor zero_config) = None"
    and quiet: "Publish recordablePub (MapMessage (toMessage default_GridMap [''elevation'']))
       \<notin> set (snd (spin demo_env [CloudMsg (demo_cloud ''lidar'') 9, TimerEvent]
                     (constructor zero_config)))"
    by blast+
  from throttle_timer [of default_config] d
  have "recordableTimer (constructor default_config) = Some (100000 / 300001)"
    by (simp add: constructor_default)
  with z d none quiet show ?thesis by blast
qed

text \<open>
  C7. Started from the constructor's state, the smoothed position after the pose
  callbacks for \<open>N\<close> samples is the \<open>N\<close>-th term of the exponential moving average
  recurrence from \<open>(0, 0, 0)\<close> with the node's \<open>positionAlpha\<close>.
\<close>

theorem lowpassPosition_is_ema:
  "lowpassPosition (pose_run poses (constructor cfg)) =
     ema (positionAlpha (constructor cfg)) (\<lambda>k. pose_position (poses ! (k - 1))) (length poses)"
proof (induction poses rule: rev_induct)
  case Nil
  show ?case by (simp add: pose_run_def constructor_lowpass)
next
  case (snoc pose poses)
  have "ema (positionAlpha (constructor cfg)) (\<lambda>k. pose_position ((poses @ [pose]) ! (k - 1))) (length poses)
      = ema (positionAlpha (constructor cfg)) (\<lambda>k. pose_position (poses ! (k - 1))) (length poses)"
  proof (rule ema_cong)
    fix k :: nat
    assume "1 \<le> k" and "k \<le> length poses"
    then have "k - 1 < length poses" by arith
    then show "pose_position ((poses @ [pose]) ! (k - 1)) = pose_position (poses ! (k - 1))"
      by (simp add: nth_append)
  qed
  with snoc show ?case
    by (simp add: pose_run_snoc poseCallback_fields pose_run_positionAlpha)
qed

text \<open>
  C8, as stated, fails: the smoothing factor is not validated, and for a factor of 1.5
  and a first raw orientation \<open>(0, 0, 0, 3)\<close> the orientation error is 1, while
  \<open>(1 - orientationAlpha)\<close> times the norm of the raw orientation minus \<open>(0, 0, 0, 1)\<close>
  is -1.
\<close>

theorem first_orientationError_counterexample:
  "orientationError (poseCallback \<lparr>pose_position = (0, 0, 0), pose_orientation = (0, 0, 0, 3)\<rparr>
       (constructor overdamped_config)) = 1
   \<and> (1 - orientationAlpha (constructor overdamped_config))
        * norm4 (sub4 (pose_orientation \<lparr>pose_position = (0, 0, 0), pose_orientation = (0, 0, 0, 3)\<rparr>)
                      (0, 0, 0, 1)) = - 1
   \<and> orientationError (poseCallback \<lparr>pose_position = (0, 0, 0), pose_orientation = (0, 0, 0, 3)\<rparr>
       (constructor overdamped_config))
     \<noteq> (1 - orientationAlpha (constructor overdamped_config))
        * norm4 (sub4 (pose_orientation \<lparr>pose_position = (0, 0, 0), pose_orientation = (0, 0, 0, 3)\<rparr>)
                      (0, 0, 0, 1))"
proof -
  let ?p = "\<lparr>pose_position = (0, 0, 0), pose_orientation = (0, 0, 0, 3)\<rparr>"
  have alpha: "orientationAlpha (constructor overdamped_config) = 3 / 2"
    by (simp add: constructor_lowpass overdamped_config_def default_config_def param_def)
  have start: "lowpassOrientation (constructor overdamped_config) = (0, 0, 0, 1)"
    by (rule constructor_lowpass)
  have dist: "norm4 (sub4 (pose_orientation ?p) (0, 0, 0, 1)) = 2"
    by simp
  have "orientationError (poseCallback ?p (constructor overdamped_config)) =
      \<bar>1 - 3 / 2\<bar> * norm4 (sub4 (pose_orientation ?p) (0, 0, 0, 1))"
    by (simp only: poseCallback_fields residual4 alpha start)
  with dist have code: "orientationError (poseCallback ?p (constructor overdamped_config)) = 1"
    by simp
  from alpha dist have claimed: "(1 - orientationAlpha (constructor overdamped_config))
        * norm4 (sub4 (pose_orientation ?p) (0, 0, 0, 1)) = - 1"
    by simp
  from code claimed show ?thesis by simp
qed

text \<open>
  C8, amended. The smoothed orientation starts at the identity quaternion
  \<open>(0, 0, 0, 1)\<close>, and the orientation error after the first pose sample is
  \<open>\<bar>1 - orientationAlpha\<bar>\<close> times the norm of the raw orientation minus
  \<open>(0, 0, 0, 1)\<close>: that is \<open>(1 - orientationAlpha)\<close> times the norm when the factor is
  at most 1, and 0 when the raw orientation is the identity quaternion.
\<close>

theorem first_orientationError:
  "lowpassOrientation (constructor cfg) = (0, 0, 0, 1)
    \<and> orientationError (poseCallback pose (constructor cfg)) =
        \<bar>1 - orientationAlpha (constructor cfg)\<bar>
          * norm4 (sub4 (pose_orientation pose) (0, 0, 0, 1))
    \<and> (orientationAlpha (constructor cfg) \<le> 1 \<longrightarrow>
         orientationError (poseCallback pose (constructor cfg)) =
           (1 - orientationAlpha (constructor cfg))
             * norm4 (sub4 (pose_orientation pose) (0, 0, 0, 1)))
    \<and> (pose_orientation pose = (0, 0, 0, 1) \<longrightarrow>
         orientationError (poseCallback pose (constructor cfg)) = 0)"
proof -
  let ?s = "constructor cfg"
  have init: "lowpassOrientation ?s = (0, 0, 0, 1)"
    by (rule constructor_lowpass)
  have "orientationError (poseCallback pose ?s) =
          \<bar>1 - orientationAlpha ?s\<bar> * norm4 (sub4 (pose_orientation pose) (lowpassOrientation ?s))"
    by (simp only: poseCallback_fields residual4)
  with init have err: "orientationError (poseCallback pose ?s) =
          \<bar>1 - orientationAlpha ?s\<bar> * norm4 (sub4 (pose_orientation pose) (0, 0, 0, 1))"
    by simp
  then have small: "orientationAlpha ?s \<le> 1 \<longrightarrow> orientationError (poseCallback pose ?s) =
          (1 - orientationAlpha ?s) * norm4 (sub4 (pose_orientation pose) (0, 0, 0, 1))"
    by simp
  from err have "pose_orientation pose = (0, 0, 0, 1) \<longrightarrow>
         orientationError (poseCallback pose ?s) = 0"
    by simp
  with init err small show ?thesis by blast
qed

text \<open>
  C8, witness: with the default factor 0.2, a first sample with orientation
  \<open>(0, 0, 1, 0)\<close> gives the error \<open>0.8 * sqrt 2\<close>, and the identity gives 0.
\<close>

theorem first_orientationError_witness:
  "orientationAlpha (constructor default_config) \<le> 1
   \<and> orientationError (poseCallback \<lparr>pose_position = (1, 2, 3), pose_orientation = (0, 0, 1, 0)\<rparr>
        (constructor default_config)) = 4 / 5 * sqrt 2
   \<and> orientationError (poseCallback \<lparr>pose_position = (1, 2, 3), pose_orientation = (0, 0, 0, 1)\<rparr>
        (constructor default_config)) = 0"
proof -
  have h: "orientationAlpha (constructor default_config) \<le> 1"
    by (simp add: constructor_lowpass default_config_def param_def)
  show ?thesis
    using h first_orientationError [of default_config "\<lparr>pose_position = (1, 2, 3), pose_orientation = (0, 0, 1, 0)\<rparr>"]
      first_orientationError [of default_config "\<lparr>pose_position = (1, 2, 3), pose_orientation = (0, 0, 0, 1)\<rparr>"]
    by (simp add: constructor_lowpass default_config_def param_def)
qed

text \<open>
  C9. In every submap response each of the nine added layers is a zero matrix whose
  row and column counts are the two metric side lengths of the extracted submap
  converted to integers, whatever the submap's size in cells; and there is a response
  in which these counts differ from the size in cells.
\<close>

theorem aux_layers_sized_by_metric_length:
  "(\<forall>layer \<in> set aux_layers.
      \<exists>m. map_of (gm_data (response_map ev request s)) layer = Some m
        \<and> rows m = to_Index (fst (gm_length (extracted_submap ev request s)))
        \<and> cols m = to_Index (snd (gm_length (extracted_submap ev request s)))
        \<and> (\<forall>c \<in> set (coeffs m). c = 0))
   \<and> (\<exists>ev' request' s' m.
        map_of (gm_data (response_map ev' request' s')) ''time'' = Some m
        \<and> (rows m, cols m) \<noteq> gm_size (response_map ev' request' s'))"
proof
  show "\<forall>layer \<in> set aux_layers.
      \<exists>m. map_of (gm_data (response_map ev request s)) layer = Some m
        \<and> rows m = to_Index (fst (gm_length (extracted_submap ev request s)))
        \<and> cols m = to_Index (snd (gm_length (extracted_submap ev request s)))
        \<and> (\<forall>c \<in> set (coeffs m). c = 0)"
    by (simp add: response_map_lookup MatrixXd_Zero_def)
next
  have "''time'' \<in> set aux_layers" by (simp add: aux_layers_def)
  then have "map_of (gm_data (response_map demo_env demo_request demo_node)) ''time'' =
       Some (MatrixXd_Zero 1 1)"
    by (simp add: response_map_lookup demo_extracted_geometry to_Index_def)
  moreover have "gm_size (response_map demo_env demo_request demo_node) = (2, 3)"
    by (simp add: response_map_size demo_extracted_geometry)
  ultimately show "\<exists>ev' request' s' m.
        map_of (gm_data (response_map ev' request' s')) ''time'' = Some m
        \<and> (rows m, cols m) \<noteq> gm_size (response_map ev' request' s')"
    by (intro exI [of _ demo_env] exI [of _ demo_request] exI [of _ demo_node]
        exI [of _ "MatrixXd_Zero 1 1"]) (simp add: MatrixXd_Zero_def)
qed

text \<open>
  C9, witness: a submap of 1 m by 1.5 m at 0.5 m per cell has 2 by 3 cells, and its
  \<open>color\<close> layer is the 1 by 1 zero matrix.
\<close>

theorem aux_layers_sized_by_metric_length_witness:
  "''color'' \<in> set aux_layers
   \<and> map_of (gm_data (response_map demo_env demo_request demo_node)) ''color''
       = Some \<lparr>rows = 1, cols = 1, coeffs = [0]\<rparr>
   \<and> gm_size (response_map demo_env demo_request demo_node) = (2, 3)
   \<and> gm_length (extracted_submap demo_env demo_request demo_node) = (1, 3 / 2)"
proof -
  have h: "''color'' \<in> set aux_layers" by (simp add: aux_layers_def)
  have len: "gm_length (extracted_submap demo_env demo_request demo_node) = (1, 3 / 2)"
    by (simp add: demo_extracted_geometry)
  have sz: "gm_size (response_map demo_env demo_request demo_node) = (2, 3)"
    by (simp add: response_map_size demo_extracted_geometry)
  from aux_layers_sized_by_metric_length [of demo_env demo_request demo_node] h
  obtain m where m: "map_of (gm_data (response_map demo_env demo_request demo_node)) ''color'' = Some m"
    "rows m = to_Index (fst (gm_length (extracted_submap demo_env demo_request demo_node)))"
    "cols m = to_Index (snd (gm_length (extracted_submap demo_env demo_request demo_node)))"
    "\<forall>c \<in> set (coeffs m). c = 0"
    by blast
  have "map_of (gm_data (response_map demo_env demo_request demo_node)) ''color''
       = Some \<lparr>rows = 1, cols = 1, coeffs = [0]\<rparr>"
    using response_map_lookup [OF h, of demo_env demo_request demo_node]
    by (simp add: len to_Index_def MatrixXd_Zero_def)
  with h len sz m show ?thesis by simp
qed

text \<open>
  C10. The clear-map handler returns true and forwards one \<open>clear\<close> call to the engine;
  the node is otherwise the same: the cached grid map, the smoothed position and
  orientation, the two errors and the republishing flag are what they were, and the
  call takes no lock and publishes nothing.
\<close>

theorem clearMap_frame:
  "fst (clearMap s) = True
   \<and> engine (snd (clearMap s)) = engine s @ [Clear]
   \<and> snd (clearMap s) = s\<lparr>engine := engine s @ [Clear]\<rparr>
   \<and> gridMap (snd (clearMap s)) = gridMap s
   \<and> lowpassPosition (snd (clearMap s)) = lowpassPosition s
   \<and> lowpassOrientation (snd (clearMap s)) = lowpassOrientation s
   \<and> positionError (snd (clearMap s)) = positionError s
   \<and> orientationError (snd (clearMap s)) = orientationError s
   \<and> enablePointCloudPublishing (snd (clearMap s)) = enablePointCloudPublishing s
   \<and> dispatch ev ClearMapReq s = (s\<lparr>engine := engine s @ [Clear]\<rparr>, [])"
proof -
  have whole: "clearMap s = (True, s\<lparr>engine := engine s @ [Clear]\<rparr>)"
    by (simp add: clearMap_def)
  then have "dispatch ev ClearMapReq s = (s\<lparr>engine := engine s @ [Clear]\<rparr>, [])"
    by simp
  with whole show ?thesis by simp
qed

end
